theory Spec2Isabelle
  imports Main
begin

section \<open>The MCP App wrapper (mcp-app-wrapper.tsx)\<close>

text \<open>
  The wrapper keeps four pieces of view-local state, one \<open>useState\<close> cell each, and
  hands them to the view component as its props. A cell holding \<open>null\<close> is \<open>None\<close>.
  The tool input type \<open>'ti\<close> and the tool result type \<open>'res\<close> are the wrapper's
  type parameters; the host context is an object, modelled as a map from its own
  property names to values of type \<open>'v\<close>.
\<close>

type_synonym 'v McpUiHostContext = "string \<rightharpoonup> 'v"

record ('ti, 'res, 'v) ViewProps =
  toolInputs :: "'ti option"
  toolInputsPartial :: "'ti option"
  toolResult :: "'res option"
  hostContext :: "'v McpUiHostContext option"

text \<open>The initial value of every cell is \<open>null\<close>.\<close>

definition initialProps :: "('ti, 'res, 'v) ViewProps" where
  "initialProps =
     \<lparr>toolInputs = None, toolInputsPartial = None, toolResult = None, hostContext = None\<rparr>"

text \<open>
  The four handlers installed by \<open>onAppCreated\<close>. Each takes the payload of the
  notification (\<open>params.arguments\<close>, or \<open>params\<close> itself) and the current cells.
\<close>

definition ontoolinput ::
  "'ti \<Rightarrow> ('ti, 'res, 'v) ViewProps \<Rightarrow> ('ti, 'res, 'v) ViewProps" where
  "ontoolinput arguments s = s\<lparr>toolInputs := Some arguments, toolInputsPartial := None\<rparr>"

definition ontoolinputpartial ::
  "'ti \<Rightarrow> ('ti, 'res, 'v) ViewProps \<Rightarrow> ('ti, 'res, 'v) ViewProps" where
  "ontoolinputpartial arguments s = s\<lparr>toolInputsPartial := Some arguments\<rparr>"

definition ontoolresult ::
  "'res \<Rightarrow> ('ti, 'res, 'v) ViewProps \<Rightarrow> ('ti, 'res, 'v) ViewProps" where
  "ontoolresult params s = s\<lparr>toolResult := Some params\<rparr>"

text \<open>
  \<open>{ ...prev, ...params }\<close>: the own properties of \<open>prev\<close> (none when \<open>prev\<close> is
  \<open>null\<close>), then those of \<open>params\<close>, a later property replacing an earlier one of the
  same name.
\<close>

definition spread :: "'v McpUiHostContext option \<Rightarrow> 'v McpUiHostContext" where
  "spread prev = (case prev of None \<Rightarrow> Map.empty | Some c \<Rightarrow> c)"

definition onhostcontextchanged ::
  "'v McpUiHostContext \<Rightarrow> ('ti, 'res, 'v) ViewProps \<Rightarrow> ('ti, 'res, 'v) ViewProps" where
  "onhostcontextchanged params s = s\<lparr>hostContext := Some (spread (hostContext s) ++ params)\<rparr>"

text \<open>
  The effect that reads the host context once the app is connected: the context, when
  there is one, replaces the stored one.
\<close>

definition onConnected ::
  "'v McpUiHostContext option \<Rightarrow> ('ti, 'res, 'v) ViewProps \<Rightarrow> ('ti, 'res, 'v) ViewProps" where
  "onConnected ctx s = (case ctx of None \<Rightarrow> s | Some c \<Rightarrow> s\<lparr>hostContext := Some c\<rparr>)"

text \<open>
  The notifications the host can send, and the handler each one reaches. The payload of
  a tool input notification is the record the source casts it to.
\<close>

datatype ('ti, 'res, 'v) notification =
    ToolInput 'ti
  | ToolInputPartial 'ti
  | ToolResult 'res
  | HostContextChanged "'v McpUiHostContext"

fun receive ::
  "('ti, 'res, 'v) notification \<Rightarrow> ('ti, 'res, 'v) ViewProps \<Rightarrow> ('ti, 'res, 'v) ViewProps" where
  "receive (ToolInput a) s = ontoolinput a s"
| "receive (ToolInputPartial a) s = ontoolinputpartial a s"
| "receive (ToolResult r) s = ontoolresult r s"
| "receive (HostContextChanged p) s = onhostcontextchanged p s"

text \<open>A notification is a complete tool input.\<close>

fun is_complete :: "('ti, 'res, 'v) notification \<Rightarrow> bool" where
  "is_complete (ToolInput a) = True"
| "is_complete n = False"

text \<open>A sequence of notifications, handled in the order of arrival.\<close>

fun receive_all ::
  "('ti, 'res, 'v) notification list \<Rightarrow> ('ti, 'res, 'v) ViewProps \<Rightarrow> ('ti, 'res, 'v) ViewProps" where
  "receive_all [] s = s"
| "receive_all (n # ns) s = receive_all ns (receive n s)"

text \<open>
  What the wrapper returns. \<open>error\<close> and \<open>app\<close> are the two results of \<open>useApp\<close>;
  an \<open>Error\<close> object is truthy whatever its message.
\<close>

datatype js_error = JsError (message: string)

datatype ('app, 'ti, 'res, 'v) wrapper_element =
    ErrorDiv string
  | LoadingDiv string
  | ThreeJSAppElement 'app "('ti, 'res, 'v) ViewProps"

definition McpAppWrapper ::
  "js_error option \<Rightarrow> 'app option \<Rightarrow> ('ti, 'res, 'v) ViewProps
     \<Rightarrow> ('app, 'ti, 'res, 'v) wrapper_element" where
  "McpAppWrapper error app s =
     (case error of
        Some e \<Rightarrow> ErrorDiv (''Error: '' @ message e)
      | None \<Rightarrow>
          (case app of
             None \<Rightarrow> LoadingDiv ''Connecting...''
           | Some a \<Rightarrow> ThreeJSAppElement a s))"

section \<open>The visibility-aware animation controller (threejs-app.tsx)\<close>

text \<open>
  The controller talks to two primitives of the browser, \<open>requestAnimationFrame\<close> and
  \<open>cancelAnimationFrame\<close>. They are outside the repository; the model keeps what the
  controller can observe of them: the handle a request returns, the requests made so far,
  in order, each with its callback, and the handles cancelled so far, in order. Handles
  are handed out by a counter. A callback is an opaque value of type \<open>'cb\<close>: passing it
  to \<open>requestAnimationFrame\<close> does not run it.
\<close>

record 'cb browser =
  nextHandle :: int
  frameRequests :: "(int \<times> 'cb) list"
  cancelled :: "int list"

definition requestAnimationFrame :: "'cb \<Rightarrow> 'cb browser \<Rightarrow> int \<times> 'cb browser" where
  "requestAnimationFrame callback w =
     (nextHandle w,
      w\<lparr>nextHandle := nextHandle w + 1,
        frameRequests := frameRequests w @ [(nextHandle w, callback)]\<rparr>)"

definition cancelAnimationFrame :: "int \<Rightarrow> 'cb browser \<Rightarrow> 'cb browser" where
  "cancelAnimationFrame handle w = w\<lparr>cancelled := cancelled w @ [handle]\<rparr>"

text \<open>The three variables closed over by the controller's functions.\<close>

record 'cb controller =
  isVisible :: bool
  pendingCallbacks :: "'cb list"
  rafIds :: "int list"

definition createAnimationController :: "'cb controller" where
  "createAnimationController = \<lparr>isVisible = True, pendingCallbacks = [], rafIds = []\<rparr>"

text \<open>
  Each function of the controller takes the controller's variables and the browser, and
  returns them updated; \<open>visibilityAwareRAF\<close> also returns a number, the handle or
  \<open>-1\<close>.
\<close>

fun visibilityAwareRAF ::
  "'cb \<Rightarrow> 'cb controller \<times> 'cb browser \<Rightarrow> int \<times> 'cb controller \<times> 'cb browser" where
  "visibilityAwareRAF callback (c, w) =
     (if isVisible c then
        (let (handle, w') = requestAnimationFrame callback w
         in (handle, c\<lparr>rafIds := rafIds c @ [handle]\<rparr>, w'))
      else (- 1, c\<lparr>pendingCallbacks := pendingCallbacks c @ [callback]\<rparr>, w))"

text \<open>\<open>callbacks.forEach((cb) => visibilityAwareRAF(cb))\<close>: the returned number is dropped.\<close>

definition forEach_visibilityAwareRAF ::
  "'cb list \<Rightarrow> 'cb controller \<times> 'cb browser \<Rightarrow> 'cb controller \<times> 'cb browser" where
  "forEach_visibilityAwareRAF callbacks s = fold (\<lambda>cb s'. snd (visibilityAwareRAF cb s')) callbacks s"

fun setVisible ::
  "bool \<Rightarrow> 'cb controller \<times> 'cb browser \<Rightarrow> 'cb controller \<times> 'cb browser" where
  "setVisible visible (c, w) =
     (let c1 = c\<lparr>isVisible := visible\<rparr> in
      if visible \<and> length (pendingCallbacks c1) > 0 then
        (let callbacks = pendingCallbacks c1;
             c2 = c1\<lparr>pendingCallbacks := []\<rparr>
         in forEach_visibilityAwareRAF callbacks (c2, w))
      else (c1, w))"

fun cleanup :: "'cb controller \<times> 'cb browser \<Rightarrow> 'cb controller \<times> 'cb browser" where
  "cleanup (c, w) =
     (c\<lparr>rafIds := [], pendingCallbacks := []\<rparr>, fold cancelAnimationFrame (rafIds c) w)"

text \<open>
  The calls a client of the controller can make, and a sequence of them run in order
  on one controller.
\<close>

datatype 'cb controller_call = Schedule 'cb | SetVisible bool | Cleanup

fun call :: "'cb controller_call \<Rightarrow> 'cb controller \<times> 'cb browser \<Rightarrow> 'cb controller \<times> 'cb browser" where
  "call (Schedule cb) s = snd (visibilityAwareRAF cb s)"
| "call (SetVisible v) s = setVisible v s"
| "call Cleanup s = cleanup s"

fun calls :: "'cb controller_call list \<Rightarrow> 'cb controller \<times> 'cb browser \<Rightarrow> 'cb controller \<times> 'cb browser" where
  "calls [] s = s"
| "calls (x # xs) s = calls xs (call x s)"

text \<open>The handles the counter hands out to consecutive requests, starting from \<open>n\<close>.\<close>

fun handles_from :: "int \<Rightarrow> 'cb list \<Rightarrow> int list" where
  "handles_from n [] = []"
| "handles_from n (cb # cbs) = n # handles_from (n + 1) cbs"

text \<open>The handles of the frame requests made so far.\<close>

definition requested :: "'cb browser \<Rightarrow> int set" where
  "requested w = fst ` set (frameRequests w)"


section \<open>The view component (threejs-app.tsx)\<close>

text \<open>
  The tool input of the view: both properties are optional. A height is a number;
  only its presence matters to the view, which never computes with it.
\<close>

record ThreeJSToolInput =
  code :: "string option"
  height :: "int option"

text \<open>Lines joined by a line feed, as in the template literal of the source.\<close>

fun join_lines :: "string list \<Rightarrow> string" where
  "join_lines [] = []"
| "join_lines [l] = l"
| "join_lines (l # ls) = l @ CHR 0x0A # join_lines ls"

text \<open>Default demo code shown when no code is provided.\<close>

definition DEFAULT_THREEJS_CODE :: string where
  "DEFAULT_THREEJS_CODE = join_lines [
      ''const scene = new THREE.Scene();'',
      ''const camera = new THREE.PerspectiveCamera(75, width / height, 0.1, 1000);'',
      ''const renderer = new THREE.WebGLRenderer({ canvas, antialias: true, alpha: true });'',
      ''renderer.setSize(width, height);'',
      ''// Transparent background - scene composites over host UI'',
      ''renderer.setClearColor(0x000000, 0);'',
      '''',
      ''const cube = new THREE.Mesh('',
      ''  new THREE.BoxGeometry(1, 1, 1),'',
      ''  new THREE.MeshStandardMaterial({ color: 0x00ff88 })'',
      '');'',
      ''// Start with an isometric-ish rotation to show 3 faces'',
      ''cube.rotation.x = 0.5;'',
      ''cube.rotation.y = 0.7;'',
      ''scene.add(cube);'',
      '''',
      ''// Better lighting: key light + fill light + ambient'',
      ''const keyLight = new THREE.DirectionalLight(0xffffff, 1.2);'',
      ''keyLight.position.set(1, 1, 2);'',
      ''scene.add(keyLight);'',
      ''const fillLight = new THREE.DirectionalLight(0x8888ff, 0.4);'',
      ''fillLight.position.set(-1, 0, -1);'',
      ''scene.add(fillLight);'',
      ''scene.add(new THREE.AmbientLight(0x404040, 0.5));'',
      '''',
      ''camera.position.z = 3;'',
      '''',
      ''function animate() {'',
      ''  requestAnimationFrame(animate);'',
      ''  cube.rotation.x += 0.01;'',
      ''  cube.rotation.y += 0.01;'',
      ''  renderer.render(scene, camera);'',
      ''}'',
      ''animate();'']"

text \<open>A string is truthy when it is not empty.\<close>

definition truthy :: "string \<Rightarrow> bool" where
  "truthy s = (s \<noteq> [])"

text \<open>
  The host context type belongs to the SDK. The view reads three of its properties; a
  value is one of the shapes those three have, or something else.
\<close>

datatype ctx_value =
    CtxString string
  | CtxStrings "string list"
  | CtxInsets (top: int) (right: int) (bottom: int) (left: int)
  | CtxOther

type_synonym props = "(ThreeJSToolInput, unit, ctx_value) ViewProps"

text \<open>The constants computed at the start of each render of \<open>ThreeJSApp\<close>.\<close>

definition height_of :: "props \<Rightarrow> int" where
  "height_of p =
     (case Option.bind (toolInputs p) height of
        Some h \<Rightarrow> h
      | None \<Rightarrow>
          (case Option.bind (toolInputsPartial p) height of
             Some h \<Rightarrow> h
           | None \<Rightarrow> 400))"

definition code_of :: "props \<Rightarrow> string" where
  "code_of p =
     (case Option.bind (toolInputs p) code of
        Some c \<Rightarrow> if truthy c then c else DEFAULT_THREEJS_CODE
      | None \<Rightarrow> DEFAULT_THREEJS_CODE)"

definition partialCode :: "props \<Rightarrow> string option" where
  "partialCode p = Option.bind (toolInputsPartial p) code"

definition isStreaming :: "props \<Rightarrow> bool" where
  "isStreaming p = (toolInputs p = None \<and> toolInputsPartial p \<noteq> None)"

definition safeAreaInsets :: "props \<Rightarrow> ctx_value option" where
  "safeAreaInsets p =
     (case hostContext p of
        None \<Rightarrow> None
      | Some hc \<Rightarrow>
          (case hc ''safeAreaInsets'' of
             Some (CtxInsets t r b l) \<Rightarrow> Some (CtxInsets t r b l)
           | _ \<Rightarrow> None))"

record containerStyle =
  paddingTop :: "int option"
  paddingRight :: "int option"
  paddingBottom :: "int option"
  paddingLeft :: "int option"

definition containerStyle_of :: "props \<Rightarrow> containerStyle" where
  "containerStyle_of p =
     \<lparr>paddingTop = map_option top (safeAreaInsets p),
      paddingRight = map_option right (safeAreaInsets p),
      paddingBottom = map_option bottom (safeAreaInsets p),
      paddingLeft = map_option left (safeAreaInsets p)\<rparr>"

definition canFullscreen :: "props \<Rightarrow> bool" where
  "canFullscreen p =
     (case hostContext p of
        None \<Rightarrow> False
      | Some hc \<Rightarrow>
          (case hc ''availableDisplayModes'' of
             Some (CtxStrings ms) \<Rightarrow> ''fullscreen'' \<in> set ms
           | _ \<Rightarrow> False))"

text \<open>
  The state of the component between renders: the two \<open>useState\<close> cells and the ref
  holding the animation controller. The controller in the ref is the one the executed
  scene code schedules its frames with.
\<close>

record 'cb component =
  error :: "string option"
  currentDisplayMode :: string
  animControllerRef :: "'cb controller option"

definition initialComponent :: "'cb component" where
  "initialComponent = \<lparr>error = None, currentDisplayMode = ''inline'', animControllerRef = None\<rparr>"

definition isFullscreen :: "'cb component \<Rightarrow> bool" where
  "isFullscreen k = (currentDisplayMode k = ''fullscreen'')"

subsection \<open>What a render returns\<close>

text \<open>
  \<open>LoadingShimmer\<close> shows the code in a \<open>pre\<close> element only when the code is a
  non-empty string.
\<close>

record shimmer =
  shimmerHeight :: int
  pre :: "string option"

definition LoadingShimmer :: "int \<Rightarrow> string option \<Rightarrow> shimmer" where
  "LoadingShimmer h c =
     \<lparr>shimmerHeight = h,
      pre = (case c of Some s \<Rightarrow> if truthy s then Some s else None | None \<Rightarrow> None)\<rparr>"

text \<open>
  The container of the scene: the canvas with its height, the error overlay when the
  error cell holds a non-empty string, and the fullscreen button.
\<close>

record scene =
  className :: string
  canvasHeight :: int
  errorOverlay :: "string option"
  buttonClassName :: string
  buttonTitle :: string

datatype element =
    Streaming containerStyle shimmer
  | Scene containerStyle scene

definition ThreeJSApp :: "props \<Rightarrow> 'cb component \<Rightarrow> element" where
  "ThreeJSApp p k =
     (if isStreaming p \<or> \<not> truthy (code_of p) then
        Streaming (containerStyle_of p) (LoadingShimmer (height_of p) (partialCode p))
      else
        Scene (containerStyle_of p)
          \<lparr>className = ''threejs-container'' @ (if isFullscreen k then '' fullscreen'' else []),
           canvasHeight = height_of p,
           errorOverlay =
             (case error k of
                Some e \<Rightarrow> if truthy e then Some (''Error: '' @ e) else None
              | None \<Rightarrow> None),
           buttonClassName = ''fullscreen-btn'' @ (if canFullscreen p then '' available'' else []),
           buttonTitle = (if isFullscreen k then ''Exit fullscreen'' else ''Toggle fullscreen'')\<rparr>)"

text \<open>The canvas and the container are mounted exactly when the scene is returned.\<close>

definition canvasMounted :: "props \<Rightarrow> bool" where
  "canvasMounted p = (\<not> (isStreaming p \<or> \<not> truthy (code_of p)))"

subsection \<open>Display mode\<close>

text \<open>The effect that follows the display mode of the host context.\<close>

definition syncDisplayMode :: "props \<Rightarrow> 'cb component \<Rightarrow> 'cb component" where
  "syncDisplayMode p k =
     (case hostContext p of
        None \<Rightarrow> k
      | Some hc \<Rightarrow>
          (case hc ''displayMode'' of
             Some (CtxString m) \<Rightarrow>
               if m = ''inline'' \<or> m = ''fullscreen'' then k\<lparr>currentDisplayMode := m\<rparr> else k
           | _ \<Rightarrow> k))"

text \<open>
  The promise returned by \<open>app.requestDisplayMode\<close> either fulfils with a result
  carrying a mode, or rejects.
\<close>

datatype displayModeResponse = Fulfils (mode: string) | Rejects

text \<open>
  \<open>toggleFullscreen\<close> reads \<open>isFullscreen\<close> as the callback captured it at the render
  that created it; the cell is written when the response arrives.
\<close>

definition newMode :: "bool \<Rightarrow> string" where
  "newMode capturedIsFullscreen = (if capturedIsFullscreen then ''inline'' else ''fullscreen'')"

definition toggleFullscreen ::
  "bool \<Rightarrow> displayModeResponse \<Rightarrow> 'cb component \<Rightarrow> 'cb component" where
  "toggleFullscreen capturedIsFullscreen response k =
     (case response of
        Fulfils m \<Rightarrow>
          if m = newMode capturedIsFullscreen then k\<lparr>currentDisplayMode := m\<rparr> else k
      | Rejects \<Rightarrow> k)"

text \<open>The key handler: Escape leaves fullscreen.\<close>

definition onKeyDown ::
  "string \<Rightarrow> bool \<Rightarrow> displayModeResponse \<Rightarrow> 'cb component \<Rightarrow> 'cb component" where
  "onKeyDown key capturedIsFullscreen response k =
     (if key = ''Escape'' \<and> capturedIsFullscreen
      then toggleFullscreen capturedIsFullscreen response k else k)"

subsection \<open>Visibility\<close>

text \<open>
  The callback of the intersection observer: each entry sets the visibility of the
  controller in the ref, if there is one.
\<close>

definition setVisible_current ::
  "bool \<Rightarrow> 'cb component \<times> 'cb browser \<Rightarrow> 'cb component \<times> 'cb browser" where
  "setVisible_current isIntersecting s =
     (case animControllerRef (fst s) of
        None \<Rightarrow> s
      | Some c \<Rightarrow>
          (let (c', w') = setVisible isIntersecting (c, snd s)
           in ((fst s)\<lparr>animControllerRef := Some c'\<rparr>, w')))"

definition intersectionCallback ::
  "bool list \<Rightarrow> 'cb component \<times> 'cb browser \<Rightarrow> 'cb component \<times> 'cb browser" where
  "intersectionCallback entries s = fold setVisible_current entries s"

subsection \<open>Executing the scene\<close>

text \<open>
  The scene code is arbitrary JavaScript. The model keeps its interaction with the
  component: the callbacks it passes, while it runs, to the \<open>requestAnimationFrame\<close>
  it was given (the controller's \<open>visibilityAwareRAF\<close>), and how the promise of
  \<open>executeThreeCode\<close> settles. A rejection carries the thrown value: an \<open>Error\<close>
  with its message, or anything else.
\<close>

datatype thrown = ThrownError js_error | ThrownOther

datatype settled = Resolved | Rejected thrown

record 'cb execution =
  requests :: "'cb list"
  outcome :: settled

definition executeThreeCode ::
  "'cb execution \<Rightarrow> 'cb controller \<times> 'cb browser \<Rightarrow> 'cb controller \<times> 'cb browser" where
  "executeThreeCode x s = forEach_visibilityAwareRAF (requests x) s"

text \<open>The handler passed to \<open>catch\<close>, run when the promise has rejected.\<close>

definition catch_handler :: "thrown \<Rightarrow> 'cb component \<Rightarrow> 'cb component" where
  "catch_handler e k =
     k\<lparr>error := Some (case e of ThrownError err \<Rightarrow> message err | ThrownOther \<Rightarrow> ''Unknown error'')\<rparr>"

definition settle :: "settled \<Rightarrow> 'cb component \<Rightarrow> 'cb component" where
  "settle r k = (case r of Resolved \<Rightarrow> k | Rejected e \<Rightarrow> catch_handler e k)"

text \<open>
  \<open>animControllerRef.current?.cleanup()\<close>, the body of the function the scene effect
  returns, and the first statement of the effect after its guard.
\<close>

definition cleanup_current ::
  "'cb component \<times> 'cb browser \<Rightarrow> 'cb component \<times> 'cb browser" where
  "cleanup_current s =
     (case animControllerRef (fst s) of
        None \<Rightarrow> s
      | Some c \<Rightarrow>
          (let (c', w') = cleanup (c, snd s)
           in ((fst s)\<lparr>animControllerRef := Some c'\<rparr>, w')))"

text \<open>
  The scene effect, with dependencies \<open>code\<close> and \<open>height\<close>. It returns the new
  state and whether it returned its teardown function (it returns nothing when the guard
  stops it).
\<close>

definition sceneEffect ::
  "props \<Rightarrow> 'cb execution \<Rightarrow> 'cb component \<times> 'cb browser
     \<Rightarrow> ('cb component \<times> 'cb browser) \<times> bool" where
  "sceneEffect p x s =
     (if \<not> truthy (code_of p) \<or> \<not> canvasMounted p then (s, False)
      else
        (let (k1, w1) = cleanup_current s;
             k2 = k1\<lparr>animControllerRef := Some createAnimationController\<rparr>;
             k3 = k2\<lparr>error := None\<rparr>;
             (c4, w4) = executeThreeCode x (createAnimationController, w1)
         in ((k3\<lparr>animControllerRef := Some c4\<rparr>, w4), True)))"

text \<open>
  The call the executed scene code makes when it requests a frame: it holds the
  \<open>visibilityAwareRAF\<close> of the controller its run of the effect put in the ref.
\<close>

definition schedule_current ::
  "'cb \<Rightarrow> 'cb component \<times> 'cb browser \<Rightarrow> 'cb component \<times> 'cb browser" where
  "schedule_current cb s =
     (case animControllerRef (fst s) of
        None \<Rightarrow> s
      | Some c \<Rightarrow>
          (let (handle, c', w') = visibilityAwareRAF cb (c, snd s)
           in ((fst s)\<lparr>animControllerRef := Some c'\<rparr>, w')))"

subsection \<open>The effects across renders\<close>

text \<open>
  The contract of \<open>useEffect\<close>, which belongs to React: after the first render the
  effect runs; after a later render it runs again only when one of its dependencies has
  changed, and then the teardown function returned by its previous run, if any, runs
  first; on unmount the teardown function returned by its last run, if any, runs.
\<close>

definition teardown ::
  "bool \<Rightarrow> 'cb component \<times> 'cb browser \<Rightarrow> 'cb component \<times> 'cb browser" where
  "teardown returned s = (if returned then cleanup_current s else s)"

text \<open>The dependencies of the scene effect and of the display mode effect.\<close>

definition sceneDeps :: "props \<Rightarrow> string \<times> int" where
  "sceneDeps p = (code_of p, height_of p)"

definition displayModeDep :: "props \<Rightarrow> ctx_value option" where
  "displayModeDep p = (case hostContext p of None \<Rightarrow> None | Some hc \<Rightarrow> hc ''displayMode'')"

text \<open>
  A mounted view: the props of its last render, whether the last run of the scene
  effect returned its teardown function, the component's state and the browser.
\<close>

record 'cb mounted =
  rendered :: props
  teardownReturned :: bool
  view :: "'cb component"
  window :: "'cb browser"


definition rerender :: "props \<Rightarrow> 'cb execution \<Rightarrow> 'cb mounted \<Rightarrow> 'cb mounted" where
  "rerender p x m =
     (let k1 = (if displayModeDep p = displayModeDep (rendered m) then view m
                else syncDisplayMode p (view m))
      in if sceneDeps p = sceneDeps (rendered m) then m\<lparr>rendered := p, view := k1\<rparr>
         else
           (let (s, r) = sceneEffect p x (teardown (teardownReturned m) (k1, window m))
            in \<lparr>rendered = p, teardownReturned = r, view = fst s, window = snd s\<rparr>))"


text \<open>
  What happens to a mounted view: it is rendered again with new props (and the code
  the new props would execute), the intersection observer reports entries, or the
  executed scene code requests a frame.
\<close>

datatype 'cb event = Render props "'cb execution" | Intersect "bool list" | Frame 'cb

fun step :: "'cb event \<Rightarrow> 'cb mounted \<Rightarrow> 'cb mounted" where
  "step (Render p x) m = rerender p x m"
| "step (Intersect entries) m =
     (let s = intersectionCallback entries (view m, window m)
      in m\<lparr>view := fst s, window := snd s\<rparr>)"
| "step (Frame cb) m =
     (let s = schedule_current cb (view m, window m)
      in m\<lparr>view := fst s, window := snd s\<rparr>)"



text \<open>
  The handles on the record of the controller in the ref, and the callbacks in its
  pending store; none when the ref is empty.
\<close>

definition recorded :: "'cb component \<Rightarrow> int list" where
  "recorded k = (case animControllerRef k of None \<Rightarrow> [] | Some c \<Rightarrow> rafIds c)"

definition queued :: "'cb component \<Rightarrow> 'cb list" where
  "queued k = (case animControllerRef k of None \<Rightarrow> [] | Some c \<Rightarrow> pendingCallbacks c)"

text \<open>
  Every frame request made beyond those in \<open>R\<close> is on the record of the controller in
  the ref or cancelled, and when no teardown function is pending that controller has
  nothing on record and nothing queued.
\<close>

definition settled :: "int set \<Rightarrow> bool \<Rightarrow> 'cb component \<times> 'cb browser \<Rightarrow> bool" where
  "settled R returned s =
     (requested (snd s) - R \<subseteq> set (recorded (fst s)) \<union> set (cancelled (snd s))
      \<and> (returned \<or> (recorded (fst s) = [] \<and> queued (fst s) = [])))"

section \<open>Properties of the wrapper\<close>

lemma receive_all_append:
  "receive_all (ms @ ns) s = receive_all ns (receive_all ms s)"
  by (induction ms arbitrary: s) simp_all

lemma toolInputs_receive_partial:
  "toolInputs (receive (ToolInputPartial a) s) = toolInputs s"
  by (simp add: ontoolinputpartial_def)

lemma toolInputs_receive_not_None:
  "toolInputs s \<noteq> None \<Longrightarrow> toolInputs (receive n s) \<noteq> None"
  by (cases n) (simp_all add: ontoolinput_def ontoolinputpartial_def ontoolresult_def
      onhostcontextchanged_def)

lemma toolInputs_receive_all_not_None:
  "toolInputs s \<noteq> None \<Longrightarrow> toolInputs (receive_all ns s) \<noteq> None"
proof (induction ns arbitrary: s)
  case Nil
  then show ?case by simp
next
  case (Cons n ns)
  from Cons.prems have "toolInputs (receive n s) \<noteq> None"
    by (rule toolInputs_receive_not_None)
  then have "toolInputs (receive_all ns (receive n s)) \<noteq> None"
    by (rule Cons.IH)
  then show ?case by simp
qed

lemma toolInputs_receive_other:
  "\<not> is_complete n \<Longrightarrow> toolInputs (receive n s) = toolInputs s"
  by (cases n) (simp_all add: ontoolinputpartial_def ontoolresult_def onhostcontextchanged_def)

lemma toolInputs_receive_all_other:
  "\<forall>n \<in> set ns. \<not> is_complete n \<Longrightarrow> toolInputs (receive_all ns s) = toolInputs s"
  by (induction ns arbitrary: s) (simp_all add: toolInputs_receive_other)

text \<open>
  C5. In every state of the reducer, a partial event stores its value as the partial
  value, whatever partial value was there, and leaves the complete value (and the other
  two cells) as they were; a complete event stores its value as the complete value and
  sets the partial value to null.
\<close>

theorem C5_reducer_partial_and_complete:
  "toolInputsPartial (receive (ToolInputPartial a) s) = Some a
   \<and> toolInputs (receive (ToolInputPartial a) s) = toolInputs s
   \<and> toolResult (receive (ToolInputPartial a) s) = toolResult s
   \<and> hostContext (receive (ToolInputPartial a) s) = hostContext s
   \<and> toolInputs (receive (ToolInput a) s) = Some a
   \<and> toolInputsPartial (receive (ToolInput a) s) = None
   \<and> toolResult (receive (ToolInput a) s) = toolResult s
   \<and> hostContext (receive (ToolInput a) s) = hostContext s"
  by (simp add: ontoolinput_def ontoolinputpartial_def)

text \<open>
  C6. Once a complete event has been received, the complete value is never null again,
  whatever notifications follow; and as long as the notifications that follow are not
  complete events themselves (partial events in particular), the stored complete value
  is the one that event stored.
\<close>

theorem C6_complete_is_terminal:
  "toolInputs (receive_all (before @ ToolInput a # later) s) \<noteq> None
   \<and> ((\<forall>n \<in> set later. \<not> is_complete n)
        \<longrightarrow> toolInputs (receive_all (before @ ToolInput a # later) s) = Some a)"
proof -
  let ?s1 = "receive (ToolInput a) (receive_all before s)"
  have run: "receive_all (before @ ToolInput a # later) s = receive_all later ?s1"
    by (simp add: receive_all_append)
  have stored: "toolInputs ?s1 = Some a"
    by (simp add: ontoolinput_def)
  have "toolInputs (receive_all later ?s1) \<noteq> None"
    using toolInputs_receive_all_not_None [of ?s1 later] stored by simp
  moreover have "toolInputs (receive_all later ?s1) = Some a"
    if "\<forall>n \<in> set later. \<not> is_complete n"
    using toolInputs_receive_all_other [OF that] stored by simp
  ultimately show ?thesis
    unfolding run by blast
qed

theorem C6_complete_is_terminal_witness:
  "list_all (\<lambda>n. \<not> is_complete n) [ToolInputPartial (2::nat), ToolResult (), ToolInputPartial 3]
   \<and> toolInputs (receive_all
        ([ToolInputPartial 0] @ ToolInput 1
           # [ToolInputPartial 2, ToolResult (), ToolInputPartial 3])
        (initialProps :: (nat, unit, unit) ViewProps)) = Some 1"
  using C6_complete_is_terminal
    [of "[ToolInputPartial 0]" 1 "[ToolInputPartial 2, ToolResult (), ToolInputPartial 3]"
        "initialProps :: (nat, unit, unit) ViewProps"]
  by simp

text \<open>
  C8. When the connection attempt has produced an error, the wrapper returns the error
  message element, made of the error's message, and not the view component, whatever
  the connected app, the tool inputs and the host context are.
\<close>

theorem C8_connection_error_blocks:
  "McpAppWrapper (Some e) app s = ErrorDiv (''Error: '' @ message e)
   \<and> (\<forall>a s'. McpAppWrapper (Some e) app s \<noteq> ThreeJSAppElement a s')
   \<and> (\<forall>t. McpAppWrapper (Some e) app s \<noteq> LoadingDiv t)"
  by (simp add: McpAppWrapper_def)

text \<open>
  C10. A host-context-change event merges into the stored host context: the new context
  has, for every property the event carries, the event's value, and for every other
  property the value the previous context had (none when there was no previous context);
  the other cells are untouched.
\<close>

theorem C10_host_context_merge:
  "\<exists>c. hostContext (receive (HostContextChanged params) s) = Some c
       \<and> (\<forall>k. k \<in> dom params \<longrightarrow> c k = params k)
       \<and> (\<forall>k. k \<notin> dom params \<longrightarrow> c k = spread (hostContext s) k)
       \<and> dom c = dom (spread (hostContext s)) \<union> dom params"
  by (auto simp: onhostcontextchanged_def map_add_def split: option.splits)

theorem C10_host_context_merge_witness:
  "hostContext (receive (HostContextChanged [''theme'' \<mapsto> ''dark''])
      (initialProps\<lparr>hostContext := Some [''theme'' \<mapsto> ''light'', ''locale'' \<mapsto> ''en'']\<rparr>
         :: (unit, unit, string) ViewProps))
   = Some [''theme'' \<mapsto> ''dark'', ''locale'' \<mapsto> ''en'']"
proof -
  let ?s = "initialProps\<lparr>hostContext := Some [''theme'' \<mapsto> ''light'', ''locale'' \<mapsto> ''en'']\<rparr>
         :: (unit, unit, string) ViewProps"
  let ?p = "[''theme'' \<mapsto> ''dark''] :: string McpUiHostContext"
  obtain c where c: "hostContext (receive (HostContextChanged ?p) ?s) = Some c"
    and new: "\<forall>k. k \<in> dom ?p \<longrightarrow> c k = ?p k"
    and old: "\<forall>k. k \<notin> dom ?p \<longrightarrow> c k = spread (hostContext ?s) k"
    using C10_host_context_merge [of ?p ?s] by blast
  have "c k = [''theme'' \<mapsto> ''dark'', ''locale'' \<mapsto> ''en''] k" for k
  proof (cases "k = ''theme''")
    case True
    with new show ?thesis by simp
  next
    case False
    with old show ?thesis by (simp add: spread_def initialProps_def)
  qed
  then have "c = [''theme'' \<mapsto> ''dark'', ''locale'' \<mapsto> ''en'']"
    by (rule ext)
  with c show ?thesis by simp
qed
section \<open>Properties of the animation controller\<close>

lemma length_handles_from [simp]: "length (handles_from n cbs) = length cbs"
  by (induction cbs arbitrary: n) simp_all

lemma forEach_visible:
  "isVisible c \<Longrightarrow>
   forEach_visibilityAwareRAF cbs (c, w) =
     (c\<lparr>rafIds := rafIds c @ handles_from (nextHandle w) cbs\<rparr>,
      w\<lparr>nextHandle := nextHandle w + int (length cbs),
        frameRequests := frameRequests w @ zip (handles_from (nextHandle w) cbs) cbs\<rparr>)"
proof (induction cbs arbitrary: c w)
  case Nil
  show ?case by (simp add: forEach_visibilityAwareRAF_def)
next
  case (Cons cb cbs)
  let ?c1 = "c\<lparr>rafIds := rafIds c @ [nextHandle w]\<rparr>"
  let ?w1 = "w\<lparr>nextHandle := nextHandle w + 1,
                 frameRequests := frameRequests w @ [(nextHandle w, cb)]\<rparr>"
  have step: "snd (visibilityAwareRAF cb (c, w)) = (?c1, ?w1)"
    using Cons.prems by (simp add: requestAnimationFrame_def)
  have vis: "isVisible ?c1"
    using Cons.prems by simp
  have "forEach_visibilityAwareRAF (cb # cbs) (c, w) = forEach_visibilityAwareRAF cbs (?c1, ?w1)"
    by (simp add: forEach_visibilityAwareRAF_def step del: visibilityAwareRAF.simps)
  also have "\<dots> =
     (?c1\<lparr>rafIds := rafIds ?c1 @ handles_from (nextHandle ?w1) cbs\<rparr>,
      ?w1\<lparr>nextHandle := nextHandle ?w1 + int (length cbs),
        frameRequests := frameRequests ?w1 @ zip (handles_from (nextHandle ?w1) cbs) cbs\<rparr>)"
    by (rule Cons.IH [OF vis])
  finally show ?case by simp
qed

lemma map_snd_zip_handles: "map snd (zip (handles_from n cbs) cbs) = cbs"
  by (simp add: map_snd_zip)

lemma map_fst_zip_handles: "map fst (zip (handles_from n cbs) cbs) = handles_from n cbs"
  by (simp add: map_fst_zip)

lemma setVisible_True:
  "setVisible True (c, w) =
     (c\<lparr>isVisible := True, pendingCallbacks := [],
        rafIds := rafIds c @ handles_from (nextHandle w) (pendingCallbacks c)\<rparr>,
      w\<lparr>nextHandle := nextHandle w + int (length (pendingCallbacks c)),
        frameRequests := frameRequests w
           @ zip (handles_from (nextHandle w) (pendingCallbacks c)) (pendingCallbacks c)\<rparr>)"
proof (cases "pendingCallbacks c = []")
  case True
  then show ?thesis by simp
next
  case False
  then show ?thesis
    by (simp add: Let_def forEach_visible)
qed

lemma setVisible_False: "setVisible False (c, w) = (c\<lparr>isVisible := False\<rparr>, w)"
  by simp

lemma schedule_invisible:
  "\<not> isVisible c \<Longrightarrow>
   calls (map Schedule cbs) (c, w) = (c\<lparr>pendingCallbacks := pendingCallbacks c @ cbs\<rparr>, w)"
  by (induction cbs arbitrary: c) simp_all

text \<open>
  C2. In every state of the controller, a call of setVisible with true forwards the
  callbacks of the pending store to the frame-scheduling primitive, one request each, in
  the order in which they were stored, records the handles, and leaves the store empty;
  this covers the transition of the flag from false to true. The callbacks scheduled
  while the flag is false are stored in the order of the calls, behind those already
  stored, so the replay is first in, first out.
\<close>

theorem C2_setVisible_replays_fifo:
  "pendingCallbacks (fst (setVisible True (c, w))) = []
   \<and> isVisible (fst (setVisible True (c, w)))
   \<and> map snd (frameRequests (snd (setVisible True (c, w))))
       = map snd (frameRequests w) @ pendingCallbacks c
   \<and> map fst (frameRequests (snd (setVisible True (c, w))))
       = map fst (frameRequests w) @ handles_from (nextHandle w) (pendingCallbacks c)
   \<and> rafIds (fst (setVisible True (c, w)))
       = rafIds c @ handles_from (nextHandle w) (pendingCallbacks c)
   \<and> cancelled (snd (setVisible True (c, w))) = cancelled w
   \<and> map snd (frameRequests (snd (setVisible True
         (calls (map Schedule cbs) (setVisible False (c, w))))))
       = map snd (frameRequests w) @ pendingCallbacks c @ cbs
   \<and> pendingCallbacks (fst (setVisible True
         (calls (map Schedule cbs) (setVisible False (c, w))))) = []"
proof -
  have run: "calls (map Schedule cbs) (setVisible False (c, w))
      = (c\<lparr>isVisible := False, pendingCallbacks := pendingCallbacks c @ cbs\<rparr>, w)"
    by (simp add: schedule_invisible del: setVisible.simps add: setVisible_False)
  show ?thesis
    unfolding run setVisible_True
    by (simp add: map_snd_zip_handles map_fst_zip_handles)
qed

text \<open>
  C3. For every callback passed to the schedule operation: when the flag is true the
  callback goes to the frame-scheduling primitive at once (one more request, with this
  callback, whose handle is recorded and returned) and the pending store is untouched;
  when the flag is false the callback is appended to the pending store, the primitive
  is not invoked (the browser is as it was) and the number returned is -1.
\<close>

theorem C3_schedule_forwards_or_stores:
  "(isVisible c \<longrightarrow>
      frameRequests (snd (snd (visibilityAwareRAF cb (c, w))))
        = frameRequests w @ [(fst (visibilityAwareRAF cb (c, w)), cb)]
      \<and> fst (visibilityAwareRAF cb (c, w)) = nextHandle w
      \<and> rafIds (fst (snd (visibilityAwareRAF cb (c, w)))) = rafIds c @ [nextHandle w]
      \<and> pendingCallbacks (fst (snd (visibilityAwareRAF cb (c, w)))) = pendingCallbacks c
      \<and> isVisible (fst (snd (visibilityAwareRAF cb (c, w)))))
   \<and> (\<not> isVisible c \<longrightarrow>
      pendingCallbacks (fst (snd (visibilityAwareRAF cb (c, w)))) = pendingCallbacks c @ [cb]
      \<and> snd (snd (visibilityAwareRAF cb (c, w))) = w
      \<and> fst (visibilityAwareRAF cb (c, w)) = - 1
      \<and> rafIds (fst (snd (visibilityAwareRAF cb (c, w)))) = rafIds c
      \<and> \<not> isVisible (fst (snd (visibilityAwareRAF cb (c, w)))))"
  by (simp add: requestAnimationFrame_def)

theorem C3_schedule_forwards_or_stores_witness:
  "isVisible (createAnimationController :: nat controller)
   \<and> visibilityAwareRAF (7::nat) (createAnimationController,
        \<lparr>nextHandle = 1, frameRequests = [], cancelled = []\<rparr>)
      = (1, \<lparr>isVisible = True, pendingCallbacks = [], rafIds = [1]\<rparr>,
         \<lparr>nextHandle = 2, frameRequests = [(1, 7)], cancelled = []\<rparr>)
   \<and> \<not> isVisible \<lparr>isVisible = False, pendingCallbacks = [5::nat], rafIds = []\<rparr>
   \<and> visibilityAwareRAF (7::nat) (\<lparr>isVisible = False, pendingCallbacks = [5], rafIds = []\<rparr>,
        \<lparr>nextHandle = 1, frameRequests = [], cancelled = []\<rparr>)
      = (- 1, \<lparr>isVisible = False, pendingCallbacks = [5, 7], rafIds = []\<rparr>,
         \<lparr>nextHandle = 1, frameRequests = [], cancelled = []\<rparr>)"
proof -
  let ?w = "\<lparr>nextHandle = 1, frameRequests = [], cancelled = []\<rparr> :: nat browser"
  let ?c = "\<lparr>isVisible = False, pendingCallbacks = [5::nat], rafIds = []\<rparr>"
  note a = C3_schedule_forwards_or_stores [of createAnimationController 7 ?w]
  note b = C3_schedule_forwards_or_stores [of ?c 7 ?w]
  have va: "isVisible (createAnimationController :: nat controller)"
    by (simp add: createAnimationController_def)
  have vb: "\<not> isVisible ?c"
    by simp
  from a va have ra: "fst (visibilityAwareRAF 7 (createAnimationController, ?w)) = 1"
    "frameRequests (snd (snd (visibilityAwareRAF 7 (createAnimationController, ?w)))) = [(1, 7)]"
    by simp_all
  from b vb have rb: "fst (visibilityAwareRAF 7 (?c, ?w)) = - 1"
    "pendingCallbacks (fst (snd (visibilityAwareRAF 7 (?c, ?w)))) = [5, 7]"
    by simp_all
  show ?thesis
    using ra rb va vb by (simp add: createAnimationController_def requestAnimationFrame_def)
qed












section \<open>Properties of the view component\<close>

lemma truthy_DEFAULT_THREEJS_CODE: "truthy DEFAULT_THREEJS_CODE"
  by (simp add: truthy_def DEFAULT_THREEJS_CODE_def)

lemma truthy_code_of: "truthy (code_of p)"
  by (simp add: code_of_def truthy_DEFAULT_THREEJS_CODE split: option.splits)

lemma canvasMounted_iff: "canvasMounted p = (\<not> isStreaming p)"
  by (simp add: canvasMounted_def truthy_code_of)

lemma ThreeJSApp_streaming:
  "isStreaming p \<Longrightarrow>
   ThreeJSApp p k = Streaming (containerStyle_of p) (LoadingShimmer (height_of p) (partialCode p))"
  by (simp add: ThreeJSApp_def)

lemma ThreeJSApp_scene:
  "\<not> isStreaming p \<Longrightarrow>
   \<exists>sc. ThreeJSApp p k = Scene (containerStyle_of p) sc \<and> canvasHeight sc = height_of p
     \<and> errorOverlay sc =
         (case error k of Some e \<Rightarrow> if truthy e then Some (''Error: '' @ e) else None
          | None \<Rightarrow> None)"
  by (simp add: ThreeJSApp_def truthy_code_of)

text \<open>
  Once a complete tool input has been received, no later notification brings the view
  back to the streaming preview.
\<close>

lemma complete_never_streams_again:
  "\<not> isStreaming (receive_all (before @ ToolInput a # later) s)"
proof -
  have run: "receive_all (before @ ToolInput a # later) s
      = receive_all later (receive (ToolInput a) (receive_all before s))"
    by (simp add: receive_all_append)
  have "toolInputs (receive (ToolInput a) (receive_all before s)) \<noteq> None"
    by (simp add: ontoolinput_def)
  then have "toolInputs (receive_all later (receive (ToolInput a) (receive_all before s))) \<noteq> None"
    by (rule toolInputs_receive_all_not_None)
  then show ?thesis
    unfolding run by (simp add: isStreaming_def)
qed

text \<open>
  C1, as the code has it. In every render state: when a complete tool input is present
  the scene is returned, never the streaming preview; the code of the scene is the
  complete input's code when that is a non-empty string and the default demo code
  otherwise (the partial code is never used for the scene); the height is the complete
  input's height when it has one, otherwise the partial input's height when there is
  one, otherwise 400. When no complete input is present and a partial one is, the
  streaming preview is returned, showing the partial code when that is a non-empty
  string, at the partial input's height when it has one and at 400 otherwise. When
  neither is present, the scene is returned with the default demo code at height 400.
\<close>

theorem C1_render_fallback:
  "(toolInputs p = Some ti \<longrightarrow>
      (\<exists>sc. ThreeJSApp p k = Scene (containerStyle_of p) sc
         \<and> canvasHeight sc =
             (case height ti of
                Some h \<Rightarrow> h
              | None \<Rightarrow>
                  (case Option.bind (toolInputsPartial p) height of
                     Some h \<Rightarrow> h
                   | None \<Rightarrow> 400)))
      \<and> code_of p =
          (case code ti of
             Some c \<Rightarrow> if c \<noteq> [] then c else DEFAULT_THREEJS_CODE
           | None \<Rightarrow> DEFAULT_THREEJS_CODE))
   \<and> (toolInputs p = None \<and> toolInputsPartial p = Some tp \<longrightarrow>
      ThreeJSApp p k =
        Streaming (containerStyle_of p)
          \<lparr>shimmerHeight = (case height tp of Some h \<Rightarrow> h | None \<Rightarrow> 400),
           pre = (case code tp of Some c \<Rightarrow> if c \<noteq> [] then Some c else None | None \<Rightarrow> None)\<rparr>)
   \<and> (toolInputs p = None \<and> toolInputsPartial p = None \<longrightarrow>
      (\<exists>sc. ThreeJSApp p k = Scene (containerStyle_of p) sc \<and> canvasHeight sc = 400)
      \<and> code_of p = DEFAULT_THREEJS_CODE)"
proof (intro conjI impI)
  assume ti: "toolInputs p = Some ti"
  then have "\<not> isStreaming p"
    by (simp add: isStreaming_def)
  then obtain sc where "ThreeJSApp p k = Scene (containerStyle_of p) sc"
    and "canvasHeight sc = height_of p"
    using ThreeJSApp_scene [of p k] by blast
  with ti show "\<exists>sc. ThreeJSApp p k = Scene (containerStyle_of p) sc
         \<and> canvasHeight sc =
             (case height ti of
                Some h \<Rightarrow> h
              | None \<Rightarrow>
                  (case Option.bind (toolInputsPartial p) height of
                     Some h \<Rightarrow> h
                   | None \<Rightarrow> 400))"
    by (simp add: height_of_def split: option.splits)
  from ti show "code_of p =
          (case code ti of
             Some c \<Rightarrow> if c \<noteq> [] then c else DEFAULT_THREEJS_CODE
           | None \<Rightarrow> DEFAULT_THREEJS_CODE)"
    by (simp add: code_of_def truthy_def split: option.splits)
next
  assume a: "toolInputs p = None \<and> toolInputsPartial p = Some tp"
  then have "isStreaming p"
    by (simp add: isStreaming_def)
  then have "ThreeJSApp p k
      = Streaming (containerStyle_of p) (LoadingShimmer (height_of p) (partialCode p))"
    by (rule ThreeJSApp_streaming)
  with a show "ThreeJSApp p k =
        Streaming (containerStyle_of p)
          \<lparr>shimmerHeight = (case height tp of Some h \<Rightarrow> h | None \<Rightarrow> 400),
           pre = (case code tp of Some c \<Rightarrow> if c \<noteq> [] then Some c else None | None \<Rightarrow> None)\<rparr>"
    by (simp add: LoadingShimmer_def height_of_def partialCode_def truthy_def
        split: option.splits)
next
  assume a: "toolInputs p = None \<and> toolInputsPartial p = None"
  then have "\<not> isStreaming p"
    by (simp add: isStreaming_def)
  then obtain sc where "ThreeJSApp p k = Scene (containerStyle_of p) sc"
    and "canvasHeight sc = height_of p"
    using ThreeJSApp_scene [of p k] by blast
  with a show "\<exists>sc. ThreeJSApp p k = Scene (containerStyle_of p) sc \<and> canvasHeight sc = 400"
    by (simp add: height_of_def)
  from a show "code_of p = DEFAULT_THREEJS_CODE"
    by (simp add: code_of_def)
qed

theorem C1_render_fallback_witness:
  "code_of \<lparr>toolInputs = Some \<lparr>code = Some ''animate()'', height = Some 300\<rparr>,
             toolInputsPartial = None, toolResult = None, hostContext = None\<rparr> = ''animate()''
   \<and> ThreeJSApp \<lparr>toolInputs = None,
                 toolInputsPartial = Some \<lparr>code = Some ''ani'', height = None\<rparr>,
                 toolResult = None, hostContext = None\<rparr> (initialComponent :: unit component)
      = Streaming \<lparr>paddingTop = None, paddingRight = None, paddingBottom = None,
                    paddingLeft = None\<rparr>
          \<lparr>shimmerHeight = 400, pre = Some ''ani''\<rparr>
   \<and> code_of \<lparr>toolInputs = None, toolInputsPartial = None, toolResult = None,
               hostContext = None\<rparr> = DEFAULT_THREEJS_CODE"
proof -
  let ?ti = "\<lparr>code = Some ''animate()'', height = Some 300\<rparr>"
  let ?tp = "\<lparr>code = Some ''ani'', height = None\<rparr>"
  let ?p1 = "\<lparr>toolInputs = Some ?ti, toolInputsPartial = None, toolResult = None,
              hostContext = None\<rparr> :: props"
  let ?p2 = "\<lparr>toolInputs = None, toolInputsPartial = Some ?tp, toolResult = None,
              hostContext = None\<rparr> :: props"
  let ?p3 = "\<lparr>toolInputs = None, toolInputsPartial = None, toolResult = None,
              hostContext = None\<rparr> :: props"
  let ?k = "initialComponent :: unit component"
  have "code_of ?p1 = ''animate()''"
    using C1_render_fallback [of ?p1 ?ti ?k] by simp
  moreover have "ThreeJSApp ?p2 ?k
      = Streaming (containerStyle_of ?p2) \<lparr>shimmerHeight = 400, pre = Some ''ani''\<rparr>"
    using C1_render_fallback [of ?p2 _ ?k ?tp] by simp
  moreover have "code_of ?p3 = DEFAULT_THREEJS_CODE"
    using C1_render_fallback [of ?p3 _ ?k] by simp
  ultimately show ?thesis
    by (simp add: containerStyle_of_def safeAreaInsets_def)
qed

text \<open>
  C1 as stated fails in two render states. With a complete input that carries code and
  no height, the canvas height is taken from the partial input when there is one: the
  same complete input is rendered at 200 or at 400, and the first of the two states is
  the one the wrapper is in after a complete event followed by a partial event. With a
  complete input whose code is the empty string, the scene code is the default demo
  code and not the complete input's code.
\<close>

theorem C1_complete_not_authoritative:
  "ThreeJSApp \<lparr>toolInputs = Some \<lparr>code = Some ''animate()'', height = None\<rparr>,
               toolInputsPartial = Some \<lparr>code = None, height = Some 200\<rparr>,
               toolResult = None, hostContext = None\<rparr> (initialComponent :: unit component)
     = Scene \<lparr>paddingTop = None, paddingRight = None, paddingBottom = None, paddingLeft = None\<rparr>
         \<lparr>className = ''threejs-container'', canvasHeight = 200, errorOverlay = None,
          buttonClassName = ''fullscreen-btn'', buttonTitle = ''Toggle fullscreen''\<rparr>
   \<and> ThreeJSApp \<lparr>toolInputs = Some \<lparr>code = Some ''animate()'', height = None\<rparr>,
               toolInputsPartial = None,
               toolResult = None, hostContext = None\<rparr> (initialComponent :: unit component)
     = Scene \<lparr>paddingTop = None, paddingRight = None, paddingBottom = None, paddingLeft = None\<rparr>
         \<lparr>className = ''threejs-container'', canvasHeight = 400, errorOverlay = None,
          buttonClassName = ''fullscreen-btn'', buttonTitle = ''Toggle fullscreen''\<rparr>
   \<and> receive_all [ToolInput \<lparr>code = Some ''animate()'', height = None\<rparr>,
                   ToolInputPartial \<lparr>code = None, height = Some 200\<rparr>] initialProps
     = (\<lparr>toolInputs = Some \<lparr>code = Some ''animate()'', height = None\<rparr>,
         toolInputsPartial = Some \<lparr>code = None, height = Some 200\<rparr>,
         toolResult = None, hostContext = None\<rparr> :: props)
   \<and> code_of \<lparr>toolInputs = Some \<lparr>code = Some [], height = Some 300\<rparr>,
               toolInputsPartial = None, toolResult = None, hostContext = None\<rparr>
     = DEFAULT_THREEJS_CODE
   \<and> DEFAULT_THREEJS_CODE \<noteq> []"
proof -
  have "DEFAULT_THREEJS_CODE \<noteq> []"
    using truthy_DEFAULT_THREEJS_CODE by (simp add: truthy_def)
  then show ?thesis
    by (simp add: ThreeJSApp_def isStreaming_def code_of_def truthy_def height_of_def
        containerStyle_of_def safeAreaInsets_def canFullscreen_def isFullscreen_def
        initialComponent_def initialProps_def ontoolinput_def ontoolinputpartial_def)
qed




lemma sceneEffect_mounted:
  "canvasMounted p \<Longrightarrow>
   sceneEffect p x s =
     (((fst (cleanup_current s))
         \<lparr>error := None,
           animControllerRef := Some (fst (executeThreeCode x
              (createAnimationController, snd (cleanup_current s))))\<rparr>,
       snd (executeThreeCode x (createAnimationController, snd (cleanup_current s)))),
      True)"
  by (simp add: sceneEffect_def truthy_code_of split_beta Let_def)


lemma recorded_syncDisplayMode [simp]: "recorded (syncDisplayMode p k) = recorded k"
  by (simp add: recorded_def syncDisplayMode_def split: option.splits ctx_value.splits)

lemma queued_syncDisplayMode [simp]: "queued (syncDisplayMode p k) = queued k"
  by (simp add: queued_def syncDisplayMode_def split: option.splits ctx_value.splits)

lemma animControllerRef_syncDisplayMode [simp]:
  "animControllerRef (syncDisplayMode p k) = animControllerRef k"
  by (simp add: syncDisplayMode_def split: option.splits ctx_value.splits)





















lemma step_keeps_render:
  "teardownReturned (step (Intersect entries) m) = teardownReturned m"
  "rendered (step (Intersect entries) m) = rendered m"
  "teardownReturned (step (Frame cb) m) = teardownReturned m"
  "rendered (step (Frame cb) m) = rendered m"
  by (simp_all add: Let_def)




text \<open>
  A failure of the scene code whose message is not empty, as the code handles it: the
  rejection is caught and its message stored; the scene is still returned, with the
  message as its overlay; the next run of the scene effect clears the stored message.
\<close>

lemma scene_failure_caught_and_shown:
  assumes "\<not> isStreaming p" and "m \<noteq> []"
  shows "error (settle (Rejected (ThrownError (JsError m))) k) = Some m"
    and "\<exists>sc. ThreeJSApp p (settle (Rejected (ThrownError (JsError m))) k)
            = Scene (containerStyle_of p) sc
          \<and> errorOverlay sc = Some (''Error: '' @ m)"
    and "error (settle (Rejected ThrownOther) k) = Some ''Unknown error''"
    and "error (fst (fst (sceneEffect p x (settle (Rejected (ThrownError (JsError m))) k, w))))
          = None"
proof -
  show "error (settle (Rejected (ThrownError (JsError m))) k) = Some m"
    by (simp add: settle_def catch_handler_def)
  then show "\<exists>sc. ThreeJSApp p (settle (Rejected (ThrownError (JsError m))) k)
            = Scene (containerStyle_of p) sc
          \<and> errorOverlay sc = Some (''Error: '' @ m)"
    using assms ThreeJSApp_scene [of p "settle (Rejected (ThrownError (JsError m))) k"]
    by (auto simp: truthy_def)
  show "error (settle (Rejected ThrownOther) k) = Some ''Unknown error''"
    by (simp add: settle_def catch_handler_def)
  from assms(1) have "canvasMounted p"
    by (simp add: canvasMounted_iff)
  then show "error (fst (fst (sceneEffect p x
      (settle (Rejected (ThrownError (JsError m))) k, w)))) = None"
    by (simp add: sceneEffect_mounted)
qed

text \<open>
  C7 at a scene whose code throws an \<open>Error\<close> with an empty message, as
  \<open>throw new Error()\<close> does: the rejection is caught and the scene is still returned,
  but the stored message is the empty string and no overlay is shown.
\<close>

theorem C7_empty_message_shows_no_overlay:
  "error (settle (Rejected (ThrownError (JsError [])))
      (fst (fst (sceneEffect
        \<lparr>toolInputs = Some \<lparr>code = Some ''throw new Error()'', height = None\<rparr>,
          toolInputsPartial = None, toolResult = None, hostContext = None\<rparr>
        \<lparr>requests = [], outcome = Rejected (ThrownError (JsError []))\<rparr>
        (initialComponent :: unit component,
         \<lparr>nextHandle = 1, frameRequests = [], cancelled = []\<rparr>))))) = Some []
   \<and> ThreeJSApp
        \<lparr>toolInputs = Some \<lparr>code = Some ''throw new Error()'', height = None\<rparr>,
          toolInputsPartial = None, toolResult = None, hostContext = None\<rparr>
        (settle (Rejected (ThrownError (JsError [])))
          (fst (fst (sceneEffect
            \<lparr>toolInputs = Some \<lparr>code = Some ''throw new Error()'', height = None\<rparr>,
              toolInputsPartial = None, toolResult = None, hostContext = None\<rparr>
            \<lparr>requests = [], outcome = Rejected (ThrownError (JsError []))\<rparr>
            (initialComponent :: unit component,
             \<lparr>nextHandle = 1, frameRequests = [], cancelled = []\<rparr>)))))
     = Scene \<lparr>paddingTop = None, paddingRight = None, paddingBottom = None, paddingLeft = None\<rparr>
         \<lparr>className = ''threejs-container'', canvasHeight = 400, errorOverlay = None,
          buttonClassName = ''fullscreen-btn'', buttonTitle = ''Toggle fullscreen''\<rparr>"
proof -
  let ?p = "\<lparr>toolInputs = Some \<lparr>code = Some ''throw new Error()'', height = None\<rparr>,
          toolInputsPartial = None, toolResult = None, hostContext = None\<rparr> :: props"
  have streaming: "\<not> isStreaming ?p"
    by (simp add: isStreaming_def)
  then have mounted: "canvasMounted ?p"
    by (simp add: canvasMounted_iff)
  have code: "truthy (code_of ?p)"
    by (rule truthy_code_of)
  show ?thesis
    using streaming code
    by (simp add: sceneEffect_mounted [OF mounted] settle_def catch_handler_def ThreeJSApp_def
        truthy_def height_of_def containerStyle_of_def safeAreaInsets_def canFullscreen_def
        isFullscreen_def initialComponent_def cleanup_current_def)
qed

text \<open>At this input the guard of the scene effect does not stop the effect.\<close>

theorem C7_empty_message_shows_no_overlay_witness:
  "truthy (code_of
      \<lparr>toolInputs = Some \<lparr>code = Some ''throw new Error()'', height = None\<rparr>,
        toolInputsPartial = None, toolResult = None, hostContext = None\<rparr>)
   \<and> canvasMounted
      \<lparr>toolInputs = Some \<lparr>code = Some ''throw new Error()'', height = None\<rparr>,
        toolInputsPartial = None, toolResult = None, hostContext = None\<rparr>
   \<and> snd (sceneEffect
        \<lparr>toolInputs = Some \<lparr>code = Some ''throw new Error()'', height = None\<rparr>,
          toolInputsPartial = None, toolResult = None, hostContext = None\<rparr>
        \<lparr>requests = [], outcome = Rejected (ThrownError (JsError []))\<rparr>
        (initialComponent :: unit component,
         \<lparr>nextHandle = 1, frameRequests = [], cancelled = []\<rparr>))
   \<and> error (settle (Rejected (ThrownError (JsError [])))
      (fst (fst (sceneEffect
        \<lparr>toolInputs = Some \<lparr>code = Some ''throw new Error()'', height = None\<rparr>,
          toolInputsPartial = None, toolResult = None, hostContext = None\<rparr>
        \<lparr>requests = [], outcome = Rejected (ThrownError (JsError []))\<rparr>
        (initialComponent :: unit component,
         \<lparr>nextHandle = 1, frameRequests = [], cancelled = []\<rparr>))))) = Some []"
proof -
  let ?p = "\<lparr>toolInputs = Some \<lparr>code = Some ''throw new Error()'', height = None\<rparr>,
          toolInputsPartial = None, toolResult = None, hostContext = None\<rparr> :: props"
  have code: "truthy (code_of ?p)"
    by (rule truthy_code_of)
  have mounted: "canvasMounted ?p"
    by (simp add: canvasMounted_iff isStreaming_def)
  from code mounted C7_empty_message_shows_no_overlay show ?thesis
    by (simp add: sceneEffect_mounted)
qed

text \<open>
  C9. The fullscreen toggle writes the stored display mode only when the host's response
  fulfils with exactly the requested mode, and then writes that mode: when the request
  rejects, or fulfils with any other mode, the component's state is as it was.
\<close>

theorem C9_toggleFullscreen_only_on_match:
  "toggleFullscreen f Rejects k = k
   \<and> (m \<noteq> newMode f \<longrightarrow> toggleFullscreen f (Fulfils m) k = k)
   \<and> toggleFullscreen f (Fulfils (newMode f)) k = k\<lparr>currentDisplayMode := newMode f\<rparr>
   \<and> (currentDisplayMode (toggleFullscreen f r k) \<noteq> currentDisplayMode k
        \<longrightarrow> r = Fulfils (newMode f))
   \<and> error (toggleFullscreen f r k) = error k
   \<and> animControllerRef (toggleFullscreen f r k) = animControllerRef k"
  by (cases r) (auto simp: toggleFullscreen_def)

theorem C9_toggleFullscreen_only_on_match_witness:
  "''inline'' \<noteq> newMode False
   \<and> toggleFullscreen False (Fulfils ''inline'') (initialComponent :: unit component)
       = initialComponent
   \<and> currentDisplayMode (toggleFullscreen False (Fulfils ''fullscreen'')
         (initialComponent :: unit component))
       \<noteq> currentDisplayMode (initialComponent :: unit component)
   \<and> Fulfils ''fullscreen'' = Fulfils (newMode False)"
proof -
  let ?k = "initialComponent :: unit component"
  have ne: "''inline'' \<noteq> newMode False"
    by (simp add: newMode_def)
  have ch: "currentDisplayMode (toggleFullscreen False (Fulfils ''fullscreen'') ?k)
       \<noteq> currentDisplayMode ?k"
    by (simp add: toggleFullscreen_def newMode_def initialComponent_def)
  from C9_toggleFullscreen_only_on_match [of False ?k "''inline''" "Fulfils ''fullscreen''"]
  have "(''inline'' \<noteq> newMode False
          \<longrightarrow> toggleFullscreen False (Fulfils ''inline'') ?k = ?k)"
    and "(currentDisplayMode (toggleFullscreen False (Fulfils ''fullscreen'') ?k)
            \<noteq> currentDisplayMode ?k
          \<longrightarrow> Fulfils ''fullscreen'' = Fulfils (newMode False))"
    by blast+
  with ne ch show ?thesis
    by blast
qed


end
